theory Spec2Isabelle
  imports Main "HOL-Library.Sublist"
begin

section \<open>The htcap probe: interaction scheduler and page analysis\<close>

text \<open>
  A shallow embedding of \<^verbatim>\<open>src/core/crawl/probe/src/probe.js\<close>: the classes
  \<^verbatim>\<open>EventLoopManager\<close>, \<^verbatim>\<open>Request\<close>, \<^verbatim>\<open>PageEvent\<close> and \<^verbatim>\<open>Probe\<close>, the helpers
  \<^verbatim>\<open>_getAbsoluteUrl\<close> and \<^verbatim>\<open>_elementToString\<close>, and the hooks installed by
  \<^verbatim>\<open>_initializeProbeHook\<close>.

  JavaScript strings are modelled as \<open>string\<close>; DOM nodes, XHR objects and PageEvent
  objects are compared by reference in the source, so nodes and XHR objects are
  references (\<open>nat\<close>) into a store and every PageEvent carries the identity \<open>oid\<close> of
  the object. A leading underscore of a source name is dropped.
\<close>

subsection \<open>Strings: the built-ins the probe calls\<close>

definition isWhiteSpace :: "char \<Rightarrow> bool" where
  \<comment> \<open>the ASCII part of the class \<^verbatim>\<open>\s\<close> and of what \<^verbatim>\<open>trim\<close> and \<^verbatim>\<open>parseInt\<close> skip\<close>
  "isWhiteSpace c = (c \<in> set [CHR '' '', CHR 0x09, CHR 0x0A, CHR 0x0B, CHR 0x0C, CHR 0x0D])"

definition toLowerCaseChar :: "char \<Rightarrow> char" where
  "toLowerCaseChar c =
     (let n = (of_char c :: nat) in if 65 \<le> n \<and> n \<le> 90 then char_of (n + 32) else c)"

definition toUpperCaseChar :: "char \<Rightarrow> char" where
  "toUpperCaseChar c =
     (let n = (of_char c :: nat) in if 97 \<le> n \<and> n \<le> 122 then char_of (n - 32) else c)"

definition toLowerCase :: "string \<Rightarrow> string" where
  "toLowerCase s = map toLowerCaseChar s"

definition toUpperCase :: "string \<Rightarrow> string" where
  "toUpperCase s = map toUpperCaseChar s"

definition trim :: "string \<Rightarrow> string" where
  "trim s = rev (dropWhile isWhiteSpace (rev (dropWhile isWhiteSpace s)))"

fun replaceFirstWhiteSpace :: "string \<Rightarrow> string" where
  \<comment> \<open>\<^verbatim>\<open>.replace(/\s/, ' ')\<close>: no \<^verbatim>\<open>g\<close> flag, so only the first match is replaced\<close>
  "replaceFirstWhiteSpace [] = []"
| "replaceFirstWhiteSpace (c # cs) =
     (if isWhiteSpace c then CHR '' '' # cs else c # replaceFirstWhiteSpace cs)"

definition join :: "string \<Rightarrow> string list \<Rightarrow> string" where
  \<comment> \<open>\<^verbatim>\<open>Array.prototype.join\<close>\<close>
  "join sep xs = (case xs of [] \<Rightarrow> [] | y # ys \<Rightarrow> y @ concat (map (\<lambda>z. sep @ z) ys))"

definition hexDigit :: "bool \<Rightarrow> nat \<Rightarrow> char" where
  "hexDigit upper n =
     (if n < 10 then char_of (48 + n)
      else if upper then char_of (55 + n) else char_of (87 + n))"

definition isAlphaNum :: "char \<Rightarrow> bool" where
  "isAlphaNum c =
     (let n = (of_char c :: nat)
      in (48 \<le> n \<and> n \<le> 57) \<or> (65 \<le> n \<and> n \<le> 90) \<or> (97 \<le> n \<and> n \<le> 122))"

definition encodeURIComponentChar :: "char \<Rightarrow> string" where
  \<comment> \<open>unreserved characters are kept, every other byte becomes \<^verbatim>\<open>%XX\<close>\<close>
  "encodeURIComponentChar c =
     (if isAlphaNum c \<or>
         c \<in> set [CHR ''-'', CHR ''_'', CHR ''.'', CHR ''!'', CHR ''~'', CHR ''*'', CHR 0x27,
                   CHR ''('', CHR '')'']
      then [c]
      else [CHR ''%'', hexDigit True ((of_char c :: nat) div 16),
            hexDigit True ((of_char c :: nat) mod 16)])"

definition encodeURIComponent :: "string \<Rightarrow> string" where
  "encodeURIComponent s = concat (map encodeURIComponentChar s)"

subsubsection \<open>\<^verbatim>\<open>parseInt\<close> without a radix\<close>

text \<open>
  \<^verbatim>\<open>parseInt\<close> returns a JavaScript number; \<open>None\<close> stands for \<^verbatim>\<open>NaN\<close>. The integers
  are unbounded here: the model agrees with the source on digit strings whose value is
  below \<open>2^53\<close> (beyond it a JavaScript number is rounded, and from \<open>10^21\<close> on it prints
  with an exponent).
\<close>

definition digitValue :: "char \<Rightarrow> nat option" where
  "digitValue c =
     (let n = (of_char c :: nat)
      in if 48 \<le> n \<and> n \<le> 57 then Some (n - 48)
         else if 97 \<le> n \<and> n \<le> 122 then Some (n - 87)
         else if 65 \<le> n \<and> n \<le> 90 then Some (n - 55)
         else None)"

definition isDigitIn :: "nat \<Rightarrow> char \<Rightarrow> bool" where
  "isDigitIn radix c = (case digitValue c of None \<Rightarrow> False | Some d \<Rightarrow> d < radix)"

definition digitsValue :: "nat \<Rightarrow> string \<Rightarrow> int" where
  "digitsValue radix ds = foldl (\<lambda>acc c. acc * int radix + int (the (digitValue c))) 0 ds"

definition parseInt :: "string \<Rightarrow> int option" where
  "parseInt s =
     (let s1 = dropWhile isWhiteSpace s;
          neg = (s1 \<noteq> [] \<and> hd s1 = CHR ''-'');
          s2 = (if s1 \<noteq> [] \<and> (hd s1 = CHR ''-'' \<or> hd s1 = CHR ''+'') then tl s1 else s1);
          hex = (prefix ''0x'' s2 \<or> prefix ''0X'' s2);
          radix = (if hex then 16 else 10);
          s3 = (if hex then drop 2 s2 else s2);
          ds = takeWhile (isDigitIn radix) s3
      in if ds = [] then None
         else Some ((if neg then -1 else 1) * digitsValue radix ds))"

definition numberPlus :: "int option \<Rightarrow> int option \<Rightarrow> int option" where
  \<comment> \<open>\<^verbatim>\<open>+\<close> on two numbers: \<^verbatim>\<open>NaN\<close> is absorbing\<close>
  "numberPlus a b = (case (a, b) of (Some x, Some y) \<Rightarrow> Some (x + y) | _ \<Rightarrow> None)"

fun natToString :: "nat \<Rightarrow> string" where
  "natToString n = (if n < 10 then [char_of (48 + n)]
                    else natToString (n div 10) @ [char_of (48 + n mod 10)])"

declare natToString.simps [simp del]

definition numberToString :: "int option \<Rightarrow> string" where
  \<comment> \<open>\<^verbatim>\<open>ToString\<close> of a number (integers below \<open>10^21\<close> print in decimal)\<close>
  "numberToString v =
     (case v of None \<Rightarrow> ''NaN''
      | Some i \<Rightarrow> if i < 0 then CHR ''-'' # natToString (nat (- i)) else natToString (nat i))"

subsubsection \<open>\<^verbatim>\<open>JSON.stringify\<close>\<close>

datatype json = JNull | JString string | JObject "(string \<times> json) list"

definition quoteChar :: "char \<Rightarrow> string" where
  "quoteChar c =
     (let n = (of_char c :: nat)
      in if c = CHR 0x22 then [CHR 0x5C, CHR 0x22]
         else if c = CHR 0x5C then [CHR 0x5C, CHR 0x5C]
         else if n = 8 then [CHR 0x5C, CHR ''b'']
         else if n = 9 then [CHR 0x5C, CHR ''t'']
         else if n = 10 then [CHR 0x5C, CHR ''n'']
         else if n = 12 then [CHR 0x5C, CHR ''f'']
         else if n = 13 then [CHR 0x5C, CHR ''r'']
         else if n < 32 then [CHR 0x5C, CHR ''u'', CHR ''0'', CHR ''0'',
                              hexDigit False (n div 16), hexDigit False (n mod 16)]
         else [c])"

definition quoteJSONString :: "string \<Rightarrow> string" where
  "quoteJSONString s = [CHR 0x22] @ concat (map quoteChar s) @ [CHR 0x22]"

fun stringify :: "json \<Rightarrow> string" where
  "stringify JNull = ''null''"
| "stringify (JString s) = quoteJSONString s"
| "stringify (JObject kvs) =
     ''{'' @ join '','' (map (\<lambda>(k, v). quoteJSONString k @ '':'' @ stringify v) kvs) @ ''}''"

subsection \<open>The platform's URL object\<close>

text \<open>
  \<^verbatim>\<open>new URL(url, base)\<close> is the browser's parser and is a parameter of the model
  (\<open>new_URL\<close> below, \<open>None\<close> when the constructor throws). What the probe reads and
  writes on the parsed object is modelled after the URL standard: a record of the
  scheme, the serialised authority and path (\<open>body\<close>), the query and the fragment.
\<close>

record URL =
  scheme :: string
  body :: string
  query :: "string option"
  fragment :: "string option"

definition protocol :: "URL \<Rightarrow> string" where
  "protocol u = scheme u @ '':''"

definition href :: "URL \<Rightarrow> string" where
  "href u = scheme u @ '':'' @ body u
            @ (case query u of None \<Rightarrow> [] | Some q \<Rightarrow> ''?'' @ q)
            @ (case fragment u of None \<Rightarrow> [] | Some f \<Rightarrow> ''#'' @ f)"

definition search :: "URL \<Rightarrow> string" where
  "search u = (case query u of None \<Rightarrow> [] | Some q \<Rightarrow> if q = [] then [] else ''?'' @ q)"

definition set_hash_empty :: "URL \<Rightarrow> URL" where
  \<comment> \<open>\<^verbatim>\<open>u.hash = ''\<close>: the fragment becomes null (the URL standard also strips the
      trailing spaces of an opaque path then, which the model leaves out)\<close>
  "set_hash_empty u = u\<lparr>fragment := None\<rparr>"

definition set_search :: "(string \<Rightarrow> string) \<Rightarrow> URL \<Rightarrow> string \<Rightarrow> URL" where
  \<comment> \<open>\<^verbatim>\<open>u.search = v\<close>: the empty string removes the query; otherwise one leading
      \<^verbatim>\<open>?\<close> is dropped and the rest is percent-encoded by the platform (\<open>enc\<close>)\<close>
  "set_search enc u v =
     (if v = [] then u\<lparr>query := None\<rparr>
      else u\<lparr>query := Some (enc (if hd v = CHR ''?'' then tl v else v))\<rparr>)"

subsection \<open>DOM elements\<close>

text \<open>
  What the probe reads from, and writes to, a node. \<open>getAttribute\<close> is the content
  attribute map; the other fields are the IDL properties of the same name
  (\<open>typeProp\<close>, \<open>methodProp\<close> and \<open>urlHref\<close> are \<^verbatim>\<open>type\<close>, \<^verbatim>\<open>method\<close> and \<^verbatim>\<open>href\<close>).
  \<open>minProp\<close> and \<open>stepProp\<close> are \<open>None\<close> when the object has no such property
  (\<^verbatim>\<open>'min' in element\<close> is false). \<open>onHandler e\<close> says that \<^verbatim>\<open>'on' + e\<close> is a property
  of the node with a truthy value; \<open>matchesSelector\<close> is \<^verbatim>\<open>webkitMatchesSelector\<close>;
  \<open>descendants\<close> is \<^verbatim>\<open>getElementsByTagName('*')\<close>, in document order.
\<close>

type_synonym elem = nat
type_synonym xhr = nat

datatype nodeKind = ElementNode | OtherNode | DocumentNode | WindowNode

record node =
  nodeKind :: nodeKind
  tagName :: string
  getAttribute :: "string \<Rightarrow> string option"
  name :: string
  className :: string
  nodeId :: string
  textContent :: string
  src :: string
  action :: string
  methodProp :: string
  urlHref :: string
  typeProp :: string
  val :: string
  checked :: bool
  dirtyCheckedness :: bool
  minProp :: "string option"
  stepProp :: "string option"
  onHandler :: "string \<Rightarrow> bool"
  matchesSelector :: "string \<Rightarrow> bool"
  descendants :: "elem list"

type_synonym document = "elem \<Rightarrow> node"

text \<open>
  \<^verbatim>\<open>_elementToString\<close>, for nodes whose \<^verbatim>\<open>className\<close>, \<^verbatim>\<open>name\<close> and the like are strings
  (HTML elements; on an SVG element \<^verbatim>\<open>className\<close> is an object and the source throws)
  and for ASCII text: \<^verbatim>\<open>trim\<close> and \<^verbatim>\<open>\s\<close> know more white space than \<open>isWhiteSpace\<close>, and
  \<^verbatim>\<open>substring(0, 10)\<close> counts UTF-16 units where \<open>take 10\<close> counts bytes.
\<close>

definition elementToString :: "node option \<Rightarrow> string" where
  "elementToString eo =
     (case eo of
        None \<Rightarrow> ''[]''
      | Some el \<Rightarrow>
          (let tag = (case nodeKind el of DocumentNode \<Rightarrow> ''DOCUMENT''
                      | WindowNode \<Rightarrow> ''WINDOW'' | _ \<Rightarrow> tagName el);
               cls = (if className el \<noteq> []
                      then (if CHR '' '' \<in> set (className el)
                            then [CHR 0x27] @ className el @ [CHR 0x27] else className el)
                      else []);
               text0 = take 10 (replaceFirstWhiteSpace (trim (textContent el)));
               text = (if textContent el \<noteq> []
                       then (if CHR '' '' \<in> set text0 then [CHR 0x27] @ text0 @ [CHR 0x27]
                             else text0)
                       else [])
           in ''['' @
              (if tag \<noteq> [] then tag @ '' '' else []) @
              (if name el \<noteq> [] then name el @ '' '' else []) @
              (if cls \<noteq> [] then ''.'' @ cls @ '' '' else []) @
              (if nodeId el \<noteq> [] then ''#'' @ nodeId el @ '' '' else []) @
              (if src el \<noteq> [] then ''src='' @ src el @ '' '' else []) @
              (if action el \<noteq> [] then ''action='' @ action el @ '' '' else []) @
              (if methodProp el \<noteq> [] then ''method='' @ methodProp el @ '' '' else []) @
              (if val el \<noteq> [] then ''value='' @ val el @ '' '' else []) @
              (if text \<noteq> [] then ''txt='' @ text else []) @
              '']''))"

subsection \<open>Configuration and platform parameters\<close>

record env =
  \<comment> \<open>\<^verbatim>\<open>window.__PROBE_CONSTANTS__.eventLoopConfig\<close>\<close>
  bufferCycleSize :: int
  messageEvent_from :: string
  messageEvent_name :: string
  afterDoneXHRTimeout :: int
  afterEventTriggeredTimeout :: int
  beforeClosingEventLoopManagerTimeout :: int
  \<comment> \<open>\<^verbatim>\<open>options\<close>\<close>
  fillValues :: bool
  triggerEvents :: bool
  inputValues :: "string \<Rightarrow> string option"
  excludedUrls :: "string list"
  \<comment> \<open>\<^verbatim>\<open>window.__PROBE_CONSTANTS__\<close>\<close>
  inputNameMatchValue :: "(string \<times> string) list"
  mappableEvents :: "string list"
  triggerableEvents :: "(string \<times> string list) list"
  \<comment> \<open>the platform: URL parser, query encoder of the \<^verbatim>\<open>search\<close> setter, \<^verbatim>\<open>String.match\<close>
      against a pattern (case-insensitive for \<open>True\<close>)\<close>
  new_URL :: "string \<Rightarrow> string \<Rightarrow> URL option"
  encodeQuery :: "string \<Rightarrow> string"
  regexMatch :: "bool \<Rightarrow> string \<Rightarrow> string \<Rightarrow> bool"
  \<comment> \<open>the platform's reaction to the two writes of \<^verbatim>\<open>_setVal\<close>: \<^verbatim>\<open>element.value = v\<close>
      (the value is sanitised for the type of the control) and
      \<^verbatim>\<open>element.setAttribute(name, v)\<close> (a \<^verbatim>\<open>checked\<close> attribute changes the checkedness
      of the control and of its radio group)\<close>
  setValueOf :: "document \<Rightarrow> elem \<Rightarrow> string \<Rightarrow> document"
  setAttributeOf :: "document \<Rightarrow> elem \<Rightarrow> string \<Rightarrow> string \<Rightarrow> document"

subsection \<open>\<^verbatim>\<open>_getAbsoluteUrl\<close>\<close>

text \<open>
  Both failures are a \<^verbatim>\<open>TypeError\<close> in the source: the one the platform's URL
  constructor throws on a string it cannot parse, and the probe's own
  \<^verbatim>\<open>Wrong protocol type\<close>, which carries the protocol.
\<close>

datatype error = InvalidURL | WrongProtocolType string

definition protocolAllowed :: "string \<Rightarrow> bool" where
  \<comment> \<open>\<^verbatim>\<open>u.protocol.match(/^(https?:|s?ftp:|javascript:)/)\<close>\<close>
  "protocolAllowed p =
     (prefix ''http:'' p \<or> prefix ''https:'' p \<or> prefix ''ftp:'' p \<or> prefix ''sftp:'' p
      \<or> prefix ''javascript:'' p)"

definition getAbsoluteUrl :: "env \<Rightarrow> string \<Rightarrow> string \<Rightarrow> bool \<Rightarrow> error + URL" where
  \<comment> \<open>the second argument is \<^verbatim>\<open>window.location.href\<close>\<close>
  "getAbsoluteUrl E loc url clearHash =
     (case new_URL E url loc of
        None \<Rightarrow> Inl InvalidURL
      | Some u \<Rightarrow>
          if \<not> protocolAllowed (protocol u) then Inl (WrongProtocolType (protocol u))
          else Inr (if clearHash then set_hash_empty u else u))"

subsection \<open>PageEvent and Request\<close>

record PageEvent =
  oid :: nat
  element :: elem
  eventName :: string

text \<open>The field \<open>method'\<close> is the source's \<^verbatim>\<open>method\<close>.\<close>

record Request =
  type :: string
  method' :: string
  data :: "string option"
  triggerer :: "PageEvent option"
  url :: string

definition orNull :: "string option \<Rightarrow> string option" where
  \<comment> \<open>\<^verbatim>\<open>data || null\<close>: the empty string is falsy\<close>
  "orNull d = (case d of None \<Rightarrow> None | Some s \<Rightarrow> if s = [] then None else Some s)"

definition new_Request ::
  "env \<Rightarrow> string \<Rightarrow> string \<Rightarrow> string \<Rightarrow> string \<Rightarrow> string option \<Rightarrow> PageEvent option
     \<Rightarrow> error + Request" where
  "new_Request E loc ty meth urlString d trig =
     (case getAbsoluteUrl E loc urlString True of
        Inl e \<Rightarrow> Inl e
      | Inr u \<Rightarrow> Inr \<lparr>type = ty, method' = meth, data = orNull d, triggerer = trig,
                     url = href u\<rparr>)"

subsection \<open>\<^verbatim>\<open>Request.toJSON\<close> and \<^verbatim>\<open>Request.key\<close>\<close>

definition toJSON :: "document \<Rightarrow> Request \<Rightarrow> json" where
  "toJSON D r =
     JObject ([(''type'', JString (type r)), (''method'', JString (method' r)),
               (''url'', JString (url r)),
               (''data'', (case orNull (data r) of None \<Rightarrow> JNull | Some d \<Rightarrow> JString d))]
              @ (case triggerer r of
                   None \<Rightarrow> []
                 | Some t \<Rightarrow>
                     [(''trigger'',
                       JObject [(''element'', JString (elementToString (Some (D (element t))))),
                                (''event'', JString (eventName t))])]))"

definition key :: "document \<Rightarrow> Request \<Rightarrow> string" where
  "key D r = stringify (toJSON D r)"

subsection \<open>State of the probe and of the page\<close>

datatype timer = AfterDoneXHR | AfterEventTriggered | BeforeClosing

datatype effect =
    PostMessage
  | SetTimeout timer int
  | StopPropagation
  | ReturnRequest Request
  | RequestEnd
  | DispatchEvent PageEvent
  | OriginalOpen xhr
  | OriginalSend xhr
  | OriginalSubmit elem

text \<open>
  One record holds the fields of the \<^verbatim>\<open>EventLoopManager\<close> (the four queues, the
  empty-loop counter and the closing flag), the fields of the \<^verbatim>\<open>Probe\<close>, the part
  of the page the probe reads and writes (the nodes, the location, the \<^verbatim>\<open>__request\<close>
  and \<^verbatim>\<open>__skipped\<close> properties the hooks put on XHR objects), the next free object
  identity, and the calls made on the outside world, in order (\<open>effects\<close>).
\<close>

record state =
  DOMAssessmentQueue :: "elem list"
  toBeTriggeredEventsQueue :: "PageEvent list"
  sentXHRQueue :: "xhr list"
  doneXHRQueue :: "xhr list"
  emptyLoopCounter :: int
  isReadyToClose :: bool
  sentXHRs :: "string list"
  seenRequest :: "string list"
  currentPageEvent :: "PageEvent option"
  eventsMap :: "(elem \<times> string list) list"
  triggeredPageEvents :: "PageEvent list"
  dom :: document
  location :: string
  xhrRequest :: "xhr \<Rightarrow> Request option"
  xhrListening :: "xhr \<Rightarrow> bool"
  xhrSkipped :: "xhr \<Rightarrow> bool"
  nextOid :: nat
  effects :: "effect list"

definition initial :: "document \<Rightarrow> string \<Rightarrow> state" where
  \<comment> \<open>the two constructors, on a page with the given nodes and location\<close>
  "initial D loc =
     \<lparr>DOMAssessmentQueue = [], toBeTriggeredEventsQueue = [], sentXHRQueue = [],
      doneXHRQueue = [], emptyLoopCounter = 0, isReadyToClose = False, sentXHRs = [],
      seenRequest = [], currentPageEvent = None, eventsMap = [], triggeredPageEvents = [],
      dom = D, location = loc, xhrRequest = (\<lambda>_. None), xhrListening = (\<lambda>_. False),
      xhrSkipped = (\<lambda>_. False), nextOid = 0, effects = []\<rparr>"

definition emit :: "effect \<Rightarrow> state \<Rightarrow> state" where
  "emit e s = s\<lparr>effects := effects s @ [e]\<rparr>"

subsection \<open>Probe: reporting requests\<close>

definition printRequest :: "Request \<Rightarrow> state \<Rightarrow> state" where
  "printRequest request s =
     (let requestKey = key (dom s) request
      in if requestKey \<notin> set (seenRequest s)
         then emit (ReturnRequest request) (s\<lparr>seenRequest := seenRequest s @ [requestKey]\<rparr>)
         else s)"

definition printJSONP :: "env \<Rightarrow> elem \<Rightarrow> state \<Rightarrow> state" where
  \<comment> \<open>for a node that is not an element, \<open>tagName\<close> holds its \<^verbatim>\<open>nodeName\<close>\<close>
  "printJSONP E n s =
     (if toLowerCase (tagName (dom s n)) = ''script'' \<and> getAttribute (dom s n) ''src'' \<noteq> None
      then (case getAbsoluteUrl E (location s) (the (getAttribute (dom s n) ''src'')) False of
              Inl e \<Rightarrow> s
            | Inr u \<Rightarrow>
                if search u \<noteq> []
                then (case new_Request E (location s) ''jsonp'' ''GET'' (href u) None
                             (currentPageEvent s) of
                        Inl e \<Rightarrow> s
                      | Inr req \<Rightarrow> printRequest req s)
                else s)
      else s)"

definition printLink :: "env \<Rightarrow> string \<Rightarrow> state \<Rightarrow> state" where
  "printLink E u s =
     (case new_Request E (location s) ''link'' ''GET'' u None (currentPageEvent s) of
        Inl e \<Rightarrow> s
      | Inr req \<Rightarrow> printRequest req s)"

definition printWebsocket :: "env \<Rightarrow> string \<Rightarrow> state \<Rightarrow> state" where
  "printWebsocket E u s =
     (case new_Request E (location s) ''websocket'' ''GET'' u None (currentPageEvent s) of
        Inl e \<Rightarrow> s
      | Inr req \<Rightarrow> printRequest req s)"

definition getRandomValue :: "env \<Rightarrow> string \<Rightarrow> string option" where
  \<comment> \<open>\<open>None\<close> is \<^verbatim>\<open>undefined\<close>\<close>
  "getRandomValue E ty =
     (if inputValues E ty = None then inputValues E ''string'' else inputValues E ty)"

definition toStr :: "string option \<Rightarrow> string" where
  \<comment> \<open>\<^verbatim>\<open>ToString\<close> of a string or \<^verbatim>\<open>undefined\<close>\<close>
  "toStr v = (case v of None \<Rightarrow> ''undefined'' | Some x \<Rightarrow> x)"

subsection \<open>Probe: \<^verbatim>\<open>getFormAsRequest\<close>\<close>

definition querySelectorAll_controls :: "document \<Rightarrow> elem \<Rightarrow> elem list" where
  \<comment> \<open>\<^verbatim>\<open>form.querySelectorAll('input, select, textarea')\<close>\<close>
  "querySelectorAll_controls D form =
     filter (\<lambda>d. toLowerCase (tagName (D d)) \<in> {''input'', ''select'', ''textarea''})
            (descendants (D form))"

definition formField :: "node \<Rightarrow> string option" where
  \<comment> \<open>one turn of the loop over \<^verbatim>\<open>inputs\<close>: the pair pushed onto \<^verbatim>\<open>formObj.data\<close>, if any
      (the \<^verbatim>\<open>type\<close> of an element is a string, never \<^verbatim>\<open>null\<close>)\<close>
  "formField inp =
     (if name inp = [] then None
      else (let par = encodeURIComponent (name inp) @ ''='' @ encodeURIComponent (val inp)
            in if tagName inp = ''INPUT''
               then (let t = toLowerCase (typeProp inp)
                     in if t = ''button'' \<or> t = ''submit'' then None
                        else if t = ''checkbox'' \<or> t = ''radio''
                        then (if checked inp then Some par else None)
                        else Some par)
               else Some par))"

definition formMethod :: "node \<Rightarrow> string" where
  "formMethod f =
     (case getAttribute f ''method'' of
        None \<Rightarrow> ''GET''
      | Some m \<Rightarrow> if m = [] then ''GET'' else toUpperCase m)"

definition formUrl :: "string \<Rightarrow> node \<Rightarrow> string" where
  "formUrl loc f =
     (case getAttribute f ''action'' of
        None \<Rightarrow> loc
      | Some a \<Rightarrow> if a = [] then loc else a)"

definition formData :: "document \<Rightarrow> elem \<Rightarrow> string" where
  "formData D form =
     join ''&'' (List.map_filter (\<lambda>d. formField (D d)) (querySelectorAll_controls D form))"

definition getFormAsRequest :: "env \<Rightarrow> state \<Rightarrow> elem \<Rightarrow> error + Request" where
  "getFormAsRequest E s form =
     (let f = dom s form
      in if formMethod f = ''GET''
         then (case getAbsoluteUrl E (location s) (formUrl (location s) f) False of
                 Inl e \<Rightarrow> Inl e
               | Inr u \<Rightarrow>
                   new_Request E (location s) ''form'' ''GET''
                     (href (set_search (encodeQuery E) u (formData (dom s) form))) None None)
         else new_Request E (location s) ''form'' ''POST'' (formUrl (location s) f)
                (Some (formData (dom s) form)) None)"

subsection \<open>Probe: the events map\<close>

fun addEventToMap :: "elem \<Rightarrow> string \<Rightarrow> (elem \<times> string list) list \<Rightarrow> (elem \<times> string list) list"
where
  "addEventToMap el ev [] = [(el, [ev])]"
| "addEventToMap el ev ((e, evs) # rest) =
     (if e = el then (e, evs @ [ev]) # rest else (e, evs) # addEventToMap el ev rest)"

definition mapElementEvents :: "env \<Rightarrow> elem \<Rightarrow> state \<Rightarrow> state" where
  "mapElementEvents E el s =
     fold (\<lambda>ev s'. if onHandler (dom s' el) ev
                    then s'\<lparr>eventsMap := addEventToMap el ev (eventsMap s')\<rparr> else s')
          (mappableEvents E) s"

definition getEventsForElement :: "env \<Rightarrow> state \<Rightarrow> elem \<Rightarrow> string list" where
  "getEventsForElement E s el =
     (case find (\<lambda>(e, evs). e = el) (eventsMap s) of None \<Rightarrow> [] | Some (e, evs) \<Rightarrow> evs)
     @ concat (map snd (filter (\<lambda>(selector, evs). matchesSelector (dom s el) selector)
                               (triggerableEvents E)))"

subsection \<open>EventLoopManager: scheduling\<close>

definition scheduleDOMAssessment :: "elem \<Rightarrow> state \<Rightarrow> state" where
  "scheduleDOMAssessment el s =
     (if el \<notin> set (DOMAssessmentQueue s)
      then s\<lparr>DOMAssessmentQueue := DOMAssessmentQueue s @ [el]\<rparr> else s)"

definition scheduleEventTriggering :: "PageEvent \<Rightarrow> state \<Rightarrow> state" where
  "scheduleEventTriggering pageEvent s =
     (if pageEvent \<notin> set (toBeTriggeredEventsQueue s)
      then s\<lparr>toBeTriggeredEventsQueue := toBeTriggeredEventsQueue s @ [pageEvent]\<rparr> else s)"

definition sentXHR :: "xhr \<Rightarrow> state \<Rightarrow> state" where
  "sentXHR request s =
     (if request \<notin> set (sentXHRQueue s)
      then s\<lparr>sentXHRQueue := sentXHRQueue s @ [request]\<rparr> else s)"

definition doneXHR :: "xhr \<Rightarrow> state \<Rightarrow> state" where
  \<comment> \<open>\<^verbatim>\<open>splice(i, 1)\<close> at the first index of the request, then \<^verbatim>\<open>push\<close>\<close>
  "doneXHR request s =
     (if request \<notin> set (doneXHRQueue s)
      then (let s1 = (if request \<in> set (sentXHRQueue s)
                      then s\<lparr>sentXHRQueue := remove1 request (sentXHRQueue s)\<rparr> else s)
            in s1\<lparr>doneXHRQueue := doneXHRQueue s1 @ [request]\<rparr>)
      else s)"

subsection \<open>Probe: value synthesis (\<^verbatim>\<open>_setVal\<close>)\<close>

definition new_PageEvent :: "elem \<Rightarrow> string \<Rightarrow> state \<Rightarrow> PageEvent \<times> state" where
  \<comment> \<open>every \<^verbatim>\<open>new PageEvent\<close> is a fresh object\<close>
  "new_PageEvent el ev s =
     (\<lparr>oid = nextOid s, element = el, eventName = ev\<rparr>, s\<lparr>nextOid := Suc (nextOid s)\<rparr>)"

definition trigger :: "PageEvent \<Rightarrow> state \<Rightarrow> state" where
  \<comment> \<open>\<^verbatim>\<open>Probe._trigger\<close>\<close>
  "trigger pageEvent s = scheduleEventTriggering pageEvent s"

definition setv :: "env \<Rightarrow> string \<Rightarrow> string option" where
  \<comment> \<open>the last matching rule of \<^verbatim>\<open>inputNameMatchValue\<close> wins\<close>
  "setv E nm =
     fold (\<lambda>(pat, cat) ret. if regexMatch E True pat nm then getRandomValue E cat else ret)
          (inputNameMatchValue E) (getRandomValue E ''string'')"

definition triggerChange :: "elem \<Rightarrow> state \<Rightarrow> state" where
  "triggerChange el s = (case new_PageEvent el ''input'' s of (pe, s') \<Rightarrow> trigger pe s')"

definition setValue :: "env \<Rightarrow> elem \<Rightarrow> string \<Rightarrow> state \<Rightarrow> state" where
  \<comment> \<open>\<^verbatim>\<open>element.value = v\<close>: what the element holds afterwards is the platform's doing\<close>
  "setValue E el v s = s\<lparr>dom := setValueOf E (dom s) el v\<rparr>"

definition toggleCheckedAttribute :: "env \<Rightarrow> elem \<Rightarrow> state \<Rightarrow> state" where
  \<comment> \<open>\<^verbatim>\<open>element.setAttribute('checked', !(element.getAttribute('checked')))\<close>: the
      boolean is written as the string \<^verbatim>\<open>"true"\<close> or \<^verbatim>\<open>"false"\<close>\<close>
  "toggleCheckedAttribute E el s =
     (let v = (case getAttribute (dom s el) ''checked'' of
                 None \<Rightarrow> ''true''
               | Some a \<Rightarrow> if a = [] then ''true'' else ''false'')
      in s\<lparr>dom := setAttributeOf E (dom s) el ''checked'' v\<rparr>)"

definition numberInputValue :: "env \<Rightarrow> node \<Rightarrow> int option" where
  \<comment> \<open>the number on the right of \<^verbatim>\<open>element.value =\<close> in the \<^verbatim>\<open>range\<close>/\<^verbatim>\<open>number\<close> case;
      \<open>None\<close> is \<^verbatim>\<open>NaN\<close>\<close>
  "numberInputValue E nd =
     (if (case minProp nd of None \<Rightarrow> False | Some m \<Rightarrow> m \<noteq> [])
      then numberPlus (parseInt (the (minProp nd)))
                      (parseInt (case stepProp nd of Some st \<Rightarrow> st | None \<Rightarrow> ''1''))
      else parseInt (toStr (getRandomValue E ''number'')))"

definition setVal :: "env \<Rightarrow> elem \<Rightarrow> state \<Rightarrow> state" where
  "setVal E el s =
     (let nd = dom s el; tag = toLowerCase (tagName nd)
      in if tag = ''textarea''
         then triggerChange el (setValue E el (toStr (setv E (name nd))) s)
         else if tag = ''select''
         then (let opts = filter (\<lambda>d. toLowerCase (tagName (dom s d)) = ''option'')
                                 (descendants nd)
               in triggerChange el
                    (setValue E el (if length opts > 1 then val (dom s (last opts))
                                  else toStr (setv E (name nd))) s))
         else if tag = ''input''
         then (let t = toLowerCase (typeProp nd)
               in if t \<in> {''button'', ''hidden'', ''submit'', ''file''} then s
                  else if t \<in> {[], ''text'', ''search''}
                  then triggerChange el (setValue E el (toStr (setv E (name nd))) s)
                  else if t \<in> {''radio'', ''checkbox''}
                  then triggerChange el (toggleCheckedAttribute E el s)
                  else if t \<in> {''range'', ''number''}
                  then triggerChange el
                         (setValue E el (numberToString (numberInputValue E nd)) s)
                  else if t \<in> {''password'', ''color'', ''date'', ''email'', ''month'',
                                ''time'', ''url'', ''week'', ''tel''}
                  then triggerChange el (setValue E el (toStr (getRandomValue E t)) s)
                  else if t = ''datetime-local''
                  then triggerChange el
                         (setValue E el (toStr (getRandomValue E ''datetimeLocal'')) s)
                  else s)
         else s)"

subsection \<open>Probe: scheduling the events of an element\<close>

fun isPageEventAlreadyTriggered :: "PageEvent list \<Rightarrow> PageEvent \<Rightarrow> bool" where
  \<comment> \<open>the keys compared are the own properties \<^verbatim>\<open>element\<close> and \<^verbatim>\<open>eventName\<close>\<close>
  "isPageEventAlreadyTriggered [] pageEvent = False"
| "isPageEventAlreadyTriggered (t # ts) pageEvent =
     (if element t = element pageEvent \<and> eventName t = eventName pageEvent then True
      else isPageEventAlreadyTriggered ts pageEvent)"

definition triggerElementEvent :: "elem \<Rightarrow> string \<Rightarrow> state \<Rightarrow> state" where
  \<comment> \<open>the body of the \<^verbatim>\<open>forEach\<close> of \<^verbatim>\<open>_triggerElementEvents\<close>\<close>
  "triggerElementEvent el ev s =
     (case new_PageEvent el ev s of
        (pageEvent, s') \<Rightarrow>
          if ev \<notin> {''load'', ''unload'', ''beforeunload''}
             \<and> \<not> isPageEventAlreadyTriggered (triggeredPageEvents s') pageEvent
          then trigger pageEvent
                 (s'\<lparr>triggeredPageEvents := triggeredPageEvents s' @ [pageEvent]\<rparr>)
          else s')"

definition triggerElementEvents :: "env \<Rightarrow> elem \<Rightarrow> state \<Rightarrow> state" where
  "triggerElementEvents E el s = fold (triggerElementEvent el) (getEventsForElement E s el) s"

definition printRequestFromForm :: "env \<Rightarrow> elem \<Rightarrow> state \<Rightarrow> state" where
  "printRequestFromForm E el s =
     (if toLowerCase (tagName (dom s el)) = ''form''
      then (case getFormAsRequest E s el of Inl e \<Rightarrow> s | Inr req \<Rightarrow> printRequest req s)
      else s)"

definition printRequestFromATag :: "env \<Rightarrow> elem \<Rightarrow> state \<Rightarrow> state" where
  "printRequestFromATag E el s =
     (if toLowerCase (tagName (dom s el)) = ''a'' \<and> getAttribute (dom s el) ''href'' \<noteq> None
      then printLink E (urlHref (dom s el)) s
      else s)"

definition analyzeDOMElement :: "env \<Rightarrow> elem \<Rightarrow> state \<Rightarrow> state" where
  "analyzeDOMElement E el s =
     (let s1 = mapElementEvents E el s;
          s2 = (if fillValues E then fold (setVal E) (descendants (dom s1 el)) s1 else s1);
          s3 = printRequestFromForm E el s2;
          s4 = printRequestFromATag E el s3
      in if triggerEvents E then triggerElementEvents E el s4 else s4)"

subsection \<open>EventLoopManager: the loop\<close>

definition doNextAction :: "env \<Rightarrow> state \<Rightarrow> state" where
  \<comment> \<open>\<^verbatim>\<open>pageEvent.trigger()\<close> dispatches the event on the element; what the page's
      handlers do then reaches the probe through its hooks (the inputs below).
      The model is of the runs in which nothing throws: \<^verbatim>\<open>window.__originalSetTimeout\<close> is
      installed (the hook installs it when \<^verbatim>\<open>overrideTimeoutFunctions\<close> is set), and the
      elements printed by the \<^verbatim>\<open>console\<close> calls are ones \<^verbatim>\<open>_elementToString\<close> accepts\<close>
  "doNextAction E s =
     (if sentXHRQueue s \<noteq> []
      then emit PostMessage (s\<lparr>isReadyToClose := False\<rparr>)
      else if doneXHRQueue s \<noteq> []
      then emit (SetTimeout AfterDoneXHR (afterDoneXHRTimeout E))
             (s\<lparr>isReadyToClose := False, doneXHRQueue := tl (doneXHRQueue s)\<rparr>)
      else if DOMAssessmentQueue s \<noteq> []
      then emit PostMessage
             (analyzeDOMElement E (hd (DOMAssessmentQueue s))
                (s\<lparr>isReadyToClose := False, DOMAssessmentQueue := tl (DOMAssessmentQueue s)\<rparr>))
      else if toBeTriggeredEventsQueue s \<noteq> []
      then (let pageEvent = last (toBeTriggeredEventsQueue s)
            in emit (SetTimeout AfterEventTriggered (afterEventTriggeredTimeout E))
                 (emit (DispatchEvent pageEvent)
                    (s\<lparr>isReadyToClose := False,
                       toBeTriggeredEventsQueue := butlast (toBeTriggeredEventsQueue s),
                       currentPageEvent := Some pageEvent\<rparr>)))
      else if isReadyToClose s then emit RequestEnd s
      else emit (SetTimeout BeforeClosing (beforeClosingEventLoopManagerTimeout E)) s)"

record eventMessage =
  source_is_window :: bool
  data_from :: string
  data_name :: string
  data_url :: string

definition eventMessageHandler :: "env \<Rightarrow> eventMessage \<Rightarrow> state \<Rightarrow> state" where
  "eventMessageHandler E eventMessage s =
     (if source_is_window eventMessage \<and> data_from eventMessage = messageEvent_from E
      then (let s1 = emit StopPropagation s
            in if data_name eventMessage = messageEvent_name E
               then (if emptyLoopCounter s1 < bufferCycleSize E
                     then (emit PostMessage s1)\<lparr>emptyLoopCounter := emptyLoopCounter s1 + 1\<rparr>
                     else doNextAction E (s1\<lparr>emptyLoopCounter := 0\<rparr>))
               else if data_name eventMessage = ''navigation-blocked''
               then printLink E (data_url eventMessage) s1
               else s1)
      else s)"

definition start :: "state \<Rightarrow> state" where
  "start s = emit PostMessage s"

subsection \<open>EventLoopManager: mutations\<close>

fun purgeLoop :: "nat \<Rightarrow> nat \<Rightarrow> elem \<Rightarrow> PageEvent list \<Rightarrow> PageEvent list" where
  \<comment> \<open>\<^verbatim>\<open>forEach\<close> whose callback splices the array it walks: the number of turns is
      fixed at the start, the index grows by one each turn, a turn whose index is past
      the end of the (shrunk) array does nothing\<close>
  "purgeLoop 0 index el arr = arr"
| "purgeLoop (Suc n) index el arr =
     (if index < length arr \<and> element (arr ! index) = el
      then purgeLoop n (Suc index) el (take index arr @ drop (Suc index) arr)
      else purgeLoop n (Suc index) el arr)"

definition purgeTriggered :: "elem \<Rightarrow> PageEvent list \<Rightarrow> PageEvent list" where
  "purgeTriggered el arr = purgeLoop (length arr) 0 el arr"

datatype mutationRecord =
    ChildList "elem list"
  | Attributes elem string
  | CharacterData

definition mutated :: "mutationRecord \<Rightarrow> state \<Rightarrow> state" where
  \<comment> \<open>the body of the \<^verbatim>\<open>forEach\<close> of \<^verbatim>\<open>nodeMutated\<close>\<close>
  "mutated mutationRecord s =
     (case mutationRecord of
        ChildList addedNodes \<Rightarrow>
          fold (\<lambda>addedNode s'. if nodeKind (dom s' addedNode) = ElementNode
                                then scheduleDOMAssessment addedNode s' else s')
               addedNodes s
      | Attributes el attributeName \<Rightarrow>
          scheduleDOMAssessment el
            (s\<lparr>triggeredPageEvents := purgeTriggered el (triggeredPageEvents s)\<rparr>)
      | CharacterData \<Rightarrow> s)"

definition nodeMutated :: "mutationRecord list \<Rightarrow> state \<Rightarrow> state" where
  "nodeMutated mutations s = fold mutated mutations s"

subsection \<open>The hooks of \<^verbatim>\<open>_initializeProbeHook\<close> and the run of the probe\<close>

definition startAnalysis :: "elem list \<Rightarrow> state \<Rightarrow> state" where
  \<comment> \<open>the argument is \<^verbatim>\<open>document.getElementsByTagName('*')\<close>\<close>
  "startAnalysis elements s =
     start (fold (\<lambda>el s'. if nodeKind (dom s' el) = ElementNode
                          then scheduleDOMAssessment el s' else s')
                 elements s)"

definition node_addEventListener :: "elem \<Rightarrow> string \<Rightarrow> state \<Rightarrow> state" where
  "node_addEventListener el ev s =
     (if ev \<notin> {''DOMContentLoaded'', ''readystatechange''}
      then s\<lparr>eventsMap := addEventToMap el ev (eventsMap s)\<rparr> else s)"

definition window_addEventListener :: "elem \<Rightarrow> string \<Rightarrow> state \<Rightarrow> state" where
  \<comment> \<open>the first argument is the reference that stands for \<^verbatim>\<open>window\<close>\<close>
  "window_addEventListener w ev s =
     (if ev \<notin> {''load'', ''unload'', ''beforeunload''}
      then s\<lparr>eventsMap := addEventToMap w ev (eventsMap s)\<rparr> else s)"

definition xhr_open :: "env \<Rightarrow> xhr \<Rightarrow> string \<Rightarrow> string \<Rightarrow> state \<Rightarrow> state" where
  "xhr_open E x meth u s =
     emit (OriginalOpen x)
       (case new_Request E (location s) ''xhr'' meth u None None of
          Inl e \<Rightarrow> s
        | Inr req \<Rightarrow> s\<lparr>xhrRequest := (xhrRequest s)(x := Some req),
                        xhrListening := (xhrListening s)(x := True)\<rparr>)"

definition xhr_readystatechange :: "xhr \<Rightarrow> nat \<Rightarrow> state \<Rightarrow> state" where
  \<comment> \<open>the listener added by the \<^verbatim>\<open>open\<close> hook; the second argument is \<^verbatim>\<open>readyState\<close>\<close>
  "xhr_readystatechange x readyState s =
     (if xhrListening s x
      then (if 1 \<le> readyState \<and> readyState < 4 then sentXHR x s
            else if readyState = 4 then doneXHR x s
            else s)
      else s)"

definition xhr_send :: "env \<Rightarrow> xhr \<Rightarrow> string option \<Rightarrow> state \<Rightarrow> state" where
  \<comment> \<open>without a \<^verbatim>\<open>__request\<close> the first assignment throws and nothing else happens\<close>
  "xhr_send E x d s =
     (case xhrRequest s x of
        None \<Rightarrow> s
      | Some r0 \<Rightarrow>
          (let r = r0\<lparr>data := d, triggerer := currentPageEvent s\<rparr>;
               skipped = (xhrSkipped s x \<or>
                          (case getAbsoluteUrl E (location s) (url r) False of
                             Inl e \<Rightarrow> True
                           | Inr u \<Rightarrow> list_ex (\<lambda>pat. regexMatch E False pat (href u))
                                               (excludedUrls E)));
               s1 = s\<lparr>xhrRequest := (xhrRequest s)(x := Some r),
                      xhrSkipped := (xhrSkipped s)(x := skipped)\<rparr>;
               requestKey = key (dom s1) r
           in if requestKey \<in> set (sentXHRs s1) then s1
              else (let s2 = printRequest r (s1\<lparr>sentXHRs := sentXHRs s1 @ [requestKey]\<rparr>)
                    in if \<not> skipped then emit (OriginalSend x) s2 else s2)))"

definition form_submit :: "env \<Rightarrow> elem \<Rightarrow> state \<Rightarrow> state" where
  "form_submit E form s =
     emit (OriginalSubmit form)
       (case getFormAsRequest E s form of Inl e \<Rightarrow> s | Inr req \<Rightarrow> printRequest req s)"

definition timerFired :: "timer \<Rightarrow> state \<Rightarrow> state" where
  \<comment> \<open>the three callbacks given to \<^verbatim>\<open>__originalSetTimeout\<close> by \<^verbatim>\<open>_doNextAction\<close>\<close>
  "timerFired t s =
     (case t of
        BeforeClosing \<Rightarrow> emit PostMessage (s\<lparr>isReadyToClose := True\<rparr>)
      | _ \<Rightarrow> emit PostMessage s)"

datatype input =
    Message eventMessage
  | StartAnalysis "elem list"
  | Mutations "mutationRecord list"
  | NodeAddEventListener elem string
  | WindowAddEventListener elem string
  | XhrOpen xhr string string
  | XhrReadyStateChange xhr nat
  | XhrSend xhr "string option"
  | InsertNode elem
  | NewWebSocket string
  | WindowOpen string
  | FormSubmit elem
  | TimerFired timer
  | PageChanged document string

definition step :: "env \<Rightarrow> input \<Rightarrow> state \<Rightarrow> state" where
  \<comment> \<open>one entry into the probe; \<open>PageChanged\<close> is the page's own code changing the
      nodes and the location between two entries\<close>
  "step E i s =
     (case i of
        Message m \<Rightarrow> eventMessageHandler E m s
      | StartAnalysis elements \<Rightarrow> startAnalysis elements s
      | Mutations ms \<Rightarrow> nodeMutated ms s
      | NodeAddEventListener el ev \<Rightarrow> node_addEventListener el ev s
      | WindowAddEventListener w ev \<Rightarrow> window_addEventListener w ev s
      | XhrOpen x meth u \<Rightarrow> xhr_open E x meth u s
      | XhrReadyStateChange x n \<Rightarrow> xhr_readystatechange x n s
      | XhrSend x d \<Rightarrow> xhr_send E x d s
      | InsertNode n \<Rightarrow> printJSONP E n s
      | NewWebSocket u \<Rightarrow> printWebsocket E u s
      | WindowOpen u \<Rightarrow> printLink E u s
      | FormSubmit form \<Rightarrow> form_submit E form s
      | TimerFired t \<Rightarrow> timerFired t s
      | PageChanged D loc \<Rightarrow> s\<lparr>dom := D, location := loc\<rparr>)"

definition run :: "env \<Rightarrow> input list \<Rightarrow> state \<Rightarrow> state" where
  "run E inputs s = fold (step E) inputs s"

section \<open>Auxiliary notions and example pages\<close>

subsection \<open>Sequences of network notifications\<close>





subsection \<open>Concrete pages and configurations\<close>

definition plainNode :: node where
  "plainNode =
     \<lparr>nodeKind = ElementNode, tagName = ''DIV'', getAttribute = (\<lambda>_. None), name = [],
      className = [], nodeId = [], textContent = [], src = [], action = [], methodProp = [],
      urlHref = [], typeProp = [], val = [], checked = False, dirtyCheckedness = False,
      minProp = None, stepProp = None, onHandler = (\<lambda>_. False),
      matchesSelector = (\<lambda>_. False), descendants = []\<rparr>"

definition plainDocument :: document where
  "plainDocument = (\<lambda>_. plainNode)"

definition http :: "string \<Rightarrow> string option \<Rightarrow> string option \<Rightarrow> URL" where
  "http b q f = \<lparr>scheme = ''http'', body = b, query = q, fragment = f\<rparr>"

definition exampleURL :: "string \<Rightarrow> string \<Rightarrow> URL option" where
  \<comment> \<open>what the URL constructor returns on the strings of the examples, on a page at
      \<^verbatim>\<open>http://x/\<close>\<close>
  "exampleURL u base =
     (if u = ''http://x/'' then Some (http ''//x/'' None None)
      else if u = ''http://x/#top'' then Some (http ''//x/'' None (Some ''top''))
      else if u = ''http://x/y'' then Some (http ''//x/y'' None None)
      else if u = ''http://x/y#top'' then Some (http ''//x/y'' None (Some ''top''))
      else if u = ''/s'' \<or> u = ''http://x/s'' then Some (http ''//x/s'' None None)
      else if u = ''http://x/?a=1'' then Some (http ''//x/'' (Some ''a=1'') None)
      else if u = ''mailto:a@b''
      then Some \<lparr>scheme = ''mailto'', body = ''a@b'', query = None, fragment = None\<rparr>
      else None)"

definition exampleSetValue :: "document \<Rightarrow> elem \<Rightarrow> string \<Rightarrow> document" where
  \<comment> \<open>the value setter on the controls of the examples: a number input keeps a
      string that is a number and holds the empty string otherwise\<close>
  "exampleSetValue D el v =
     D(el := (D el)\<lparr>val := (if toLowerCase (typeProp (D el)) = ''number'' \<and> parseInt v = None
                                then [] else v)\<rparr>)"

definition exampleSetAttribute :: "document \<Rightarrow> elem \<Rightarrow> string \<Rightarrow> string \<Rightarrow> document" where
  \<comment> \<open>\<^verbatim>\<open>setAttribute\<close> on the controls of the examples (no radio groups): a control
      whose checkedness is not dirty becomes checked when it gets the attribute\<close>
  "exampleSetAttribute D el a v =
     D(el := (D el)\<lparr>getAttribute := (getAttribute (D el))(a := Some v),
                       checked := (if a = ''checked'' \<and> \<not> dirtyCheckedness (D el) then True
                                   else checked (D el))\<rparr>)"

definition exampleEnv :: env where
  "exampleEnv =
     \<lparr>bufferCycleSize = 2, messageEvent_from = ''htcap'', messageEvent_name = ''event-loop-ready'',
      afterDoneXHRTimeout = 10, afterEventTriggeredTimeout = 1,
      beforeClosingEventLoopManagerTimeout = 500,
      fillValues = True, triggerEvents = True,
      inputValues = (\<lambda>k. if k = ''string'' then Some ''abc''
                          else if k = ''number'' then Some ''42'' else None),
      excludedUrls = [],
      inputNameMatchValue = [], mappableEvents = [''click'', ''load''],
      triggerableEvents = [],
      new_URL = exampleURL, encodeQuery = (\<lambda>q. q), regexMatch = (\<lambda>_ _ _. False),
      setValueOf = exampleSetValue, setAttributeOf = exampleSetAttribute\<rparr>"

definition tick :: eventMessage where
  "tick = \<lparr>source_is_window = True, data_from = ''htcap'', data_name = ''event-loop-ready'',
           data_url = []\<rparr>"

definition isTick :: "env \<Rightarrow> eventMessage \<Rightarrow> bool" where
  \<comment> \<open>the message the manager posts to itself\<close>
  "isTick E m = (source_is_window m \<and> data_from m = messageEvent_from E
                 \<and> data_name m = messageEvent_name E)"

definition clickOn :: "nat \<Rightarrow> elem \<Rightarrow> PageEvent" where
  "clickOn n el = \<lparr>oid = n, element = el, eventName = ''click''\<rparr>"

definition busyState :: state where
  \<comment> \<open>a state with every queue filled\<close>
  "busyState =
     (initial plainDocument ''http://x/'')
       \<lparr>DOMAssessmentQueue := [1, 2], toBeTriggeredEventsQueue := [clickOn 0 1],
        sentXHRQueue := [7], doneXHRQueue := [8], isReadyToClose := True\<rparr>"

definition mouseoverOn :: "nat \<Rightarrow> elem \<Rightarrow> PageEvent" where
  "mouseoverOn n el = \<lparr>oid = n, element = el, eventName = ''mouseover''\<rparr>"

definition twoListeners :: "input list" where
  \<comment> \<open>the page binds \<^verbatim>\<open>click\<close> and \<^verbatim>\<open>mouseover\<close> on node 5, the analysis starts, and
      after three ticks node 5 is analysed: both events are scheduled and recorded as
      triggered\<close>
  "twoListeners =
     [NodeAddEventListener 5 ''click'', NodeAddEventListener 5 ''mouseover'',
      StartAnalysis [5], Message tick, Message tick, Message tick]"

definition numberInput :: "string \<Rightarrow> string \<Rightarrow> node" where
  \<comment> \<open>\<^verbatim>\<open><input type="number">\<close> with the given \<^verbatim>\<open>min\<close> and \<^verbatim>\<open>step\<close> properties; an input
      element has both properties, and each is the empty string when the attribute is
      missing\<close>
  "numberInput mn st =
     plainNode\<lparr>tagName := ''INPUT'', typeProp := ''number'', minProp := Some mn,
               stepProp := Some st\<rparr>"

subsection \<open>Parsed URLs and the fragment mark\<close>

definition hashFree :: "URL \<Rightarrow> bool" where
  \<comment> \<open>a parsed URL has no \<^verbatim>\<open>#\<close> before its fragment (the parser ends the scheme, the
      path and the query at the first one)\<close>
  "hashFree u =
     (CHR ''#'' \<notin> set (scheme u) \<and> CHR ''#'' \<notin> set (body u)
      \<and> (case query u of None \<Rightarrow> True | Some q \<Rightarrow> CHR ''#'' \<notin> set q))"

subsection \<open>Forms, in the words of the specification\<close>














subsection \<open>What an entry into the probe may do to the dedup keys and to the event queue\<close>

definition unloadEvents :: "string set" where
  "unloadEvents = {''load'', ''unload'', ''beforeunload''}"

definition extends :: "state \<Rightarrow> state \<Rightarrow> bool" where
  \<comment> \<open>from the first state to the second no dedup key was forgotten, and every PageEvent
      that joined the event queue has a name outside \<open>unloadEvents\<close>\<close>
  "extends s s' =
     (set (seenRequest s) \<subseteq> set (seenRequest s')
      \<and> (\<forall>pe \<in> set (toBeTriggeredEventsQueue s').
            pe \<in> set (toBeTriggeredEventsQueue s) \<or> eventName pe \<notin> unloadEvents))"

subsection \<open>Reported requests\<close>

fun emitted :: "effect list \<Rightarrow> Request list" where
  \<comment> \<open>the requests handed to \<^verbatim>\<open>__PROBE_FN_RETURN_REQUEST__\<close>, in order\<close>
  "emitted [] = []"
| "emitted (ReturnRequest r # es) = r # emitted es"
| "emitted (e # es) = emitted es"

definition triggerInfo :: "document \<Rightarrow> Request \<Rightarrow> (string \<times> string) option" where
  \<comment> \<open>what \<^verbatim>\<open>toJSON\<close> adds for the triggerer: the printed element and the event name\<close>
  "triggerInfo D r =
     (case triggerer r of
        None \<Rightarrow> None
      | Some t \<Rightarrow> Some (elementToString (Some (D (element t))), eventName t))"

definition linkXY :: "PageEvent option \<Rightarrow> Request" where
  "linkXY t = \<lparr>type = ''link'', method' = ''GET'', data = None, triggerer = t,
               url = ''http://x/y''\<rparr>"

definition openedTwice :: "input list" where
  \<comment> \<open>the page binds \<^verbatim>\<open>click\<close> on node 5 and calls \<^verbatim>\<open>window.open('http://x/y')\<close> once
      before any event was triggered and once after the click on node 5 was\<close>
  "openedTwice =
     [NodeAddEventListener 5 ''click'', StartAnalysis [5],
      Message tick, Message tick, Message tick,
      WindowOpen ''http://x/y'',
      Message tick, Message tick, Message tick,
      WindowOpen ''http://x/y'']"

definition loadAndClick :: "input list" where
  \<comment> \<open>the page binds \<^verbatim>\<open>load\<close> and \<^verbatim>\<open>click\<close> on node 5 and node 5 is analysed\<close>
  "loadAndClick =
     [NodeAddEventListener 5 ''load'', NodeAddEventListener 5 ''click'', StartAnalysis [5],
      Message tick, Message tick, Message tick]"

section \<open>Properties\<close>

subsection \<open>The network queues\<close>












subsection \<open>The loop\<close>

text \<open>
  Claim C2: when the sent-request queue is not empty, \<^verbatim>\<open>_doNextAction\<close> pops nothing:
  the four queues are unchanged and the only call it makes is the \<^verbatim>\<open>postMessage\<close> that
  asks for the next tick. (The state it returns differs from the one it was given by
  that call and by the closing flag, which this branch resets.)
\<close>

theorem doNextAction_waits_for_sent:
  assumes "sentXHRQueue s \<noteq> []"
  shows "sentXHRQueue (doNextAction E s) = sentXHRQueue s
         \<and> doneXHRQueue (doNextAction E s) = doneXHRQueue s
         \<and> DOMAssessmentQueue (doNextAction E s) = DOMAssessmentQueue s
         \<and> toBeTriggeredEventsQueue (doNextAction E s) = toBeTriggeredEventsQueue s
         \<and> effects (doNextAction E s) = effects s @ [PostMessage]
         \<and> doNextAction E s = s\<lparr>isReadyToClose := False, effects := effects s @ [PostMessage]\<rparr>"
  using assms by (simp add: doNextAction_def emit_def)

theorem doNextAction_waits_for_sent_witness:
  "sentXHRQueue busyState \<noteq> []
   \<and> sentXHRQueue (doNextAction exampleEnv busyState) = [7]
   \<and> doneXHRQueue (doNextAction exampleEnv busyState) = [8]
   \<and> DOMAssessmentQueue (doNextAction exampleEnv busyState) = [1, 2]
   \<and> toBeTriggeredEventsQueue (doNextAction exampleEnv busyState) = [clickOn 0 1]
   \<and> effects (doNextAction exampleEnv busyState) = [PostMessage]"
  using doNextAction_waits_for_sent [of busyState exampleEnv]
  by (simp add: busyState_def initial_def)

text \<open>
  Claim C9: with \<^verbatim>\<open>bufferCycleSize = 2\<close> and the counter at 0, the first two ticks only
  post the message again and count (to 1, then 2); the third sets the counter to 0 and
  is the one call of \<^verbatim>\<open>_doNextAction\<close>.
\<close>

theorem three_idle_ticks:
  assumes "bufferCycleSize E = 2" and "emptyLoopCounter s = 0"
    and "isTick E m1" and "isTick E m2" and "isTick E m3"
  shows "eventMessageHandler E m1 s
           = s\<lparr>emptyLoopCounter := 1, effects := effects s @ [StopPropagation, PostMessage]\<rparr>
         \<and> eventMessageHandler E m2 (eventMessageHandler E m1 s)
           = s\<lparr>emptyLoopCounter := 2,
               effects := effects s @ [StopPropagation, PostMessage, StopPropagation, PostMessage]\<rparr>
         \<and> eventMessageHandler E m3 (eventMessageHandler E m2 (eventMessageHandler E m1 s))
           = doNextAction E
               (s\<lparr>effects := effects s @ [StopPropagation, PostMessage, StopPropagation,
                                          PostMessage, StopPropagation],
                  emptyLoopCounter := 0\<rparr>)"
  using assms by (simp add: eventMessageHandler_def isTick_def emit_def Let_def)

theorem three_idle_ticks_witness:
  "bufferCycleSize exampleEnv = 2
   \<and> emptyLoopCounter (initial plainDocument ''http://x/'') = 0
   \<and> isTick exampleEnv tick
   \<and> effects (eventMessageHandler exampleEnv tick (eventMessageHandler exampleEnv tick
               (eventMessageHandler exampleEnv tick (initial plainDocument ''http://x/''))))
       = [StopPropagation, PostMessage, StopPropagation, PostMessage, StopPropagation,
          SetTimeout BeforeClosing 500]
   \<and> emptyLoopCounter (eventMessageHandler exampleEnv tick (eventMessageHandler exampleEnv tick
               (eventMessageHandler exampleEnv tick (initial plainDocument ''http://x/'')))) = 0"
proof -
  have h: "bufferCycleSize exampleEnv = 2"
    "emptyLoopCounter (initial plainDocument ''http://x/'') = 0" "isTick exampleEnv tick"
    by (simp_all add: exampleEnv_def initial_def isTick_def tick_def)
  have "eventMessageHandler exampleEnv tick (eventMessageHandler exampleEnv tick
          (eventMessageHandler exampleEnv tick (initial plainDocument ''http://x/'')))
        = doNextAction exampleEnv
            ((initial plainDocument ''http://x/'')
               \<lparr>effects := effects (initial plainDocument ''http://x/'')
                    @ [StopPropagation, PostMessage, StopPropagation, PostMessage, StopPropagation],
                emptyLoopCounter := 0\<rparr>)"
    using three_idle_ticks [OF h(1) h(2) h(3) h(3) h(3)] by blast
  also have "\<dots> = (initial plainDocument ''http://x/'')
               \<lparr>effects := [StopPropagation, PostMessage, StopPropagation, PostMessage,
                            StopPropagation, SetTimeout BeforeClosing 500]\<rparr>"
    by (simp add: doNextAction_def emit_def initial_def exampleEnv_def)
  finally show ?thesis using h by (simp add: initial_def)
qed

subsection \<open>Attribute mutations and the trigger history\<close>

text \<open>
  Claim C3 says that an attribute mutation on an element removes every recorded
  PageEvent of that element. The source removes them with \<^verbatim>\<open>splice\<close> inside a
  \<^verbatim>\<open>forEach\<close> over the same array, so the record that follows a removed one is skipped.
  On a page that binds \<^verbatim>\<open>click\<close> and \<^verbatim>\<open>mouseover\<close> on one element, the analysis
  records both; after an attribute mutation of that element the \<^verbatim>\<open>mouseover\<close> record is
  still there, so an equal PageEvent counts as already triggered, while the element
  is queued for assessment as the claim says.
\<close>

theorem attribute_mutation_leaves_record:
  "triggeredPageEvents (run exampleEnv twoListeners (initial plainDocument ''http://x/''))
     = [clickOn 0 5, mouseoverOn 1 5]
   \<and> triggeredPageEvents
       (run exampleEnv (twoListeners @ [Mutations [Attributes 5 ''onclick'']])
          (initial plainDocument ''http://x/''))
     = [mouseoverOn 1 5]
   \<and> isPageEventAlreadyTriggered
       (triggeredPageEvents
          (run exampleEnv (twoListeners @ [Mutations [Attributes 5 ''onclick'']])
             (initial plainDocument ''http://x/'')))
       (mouseoverOn 2 5)
   \<and> DOMAssessmentQueue
       (run exampleEnv (twoListeners @ [Mutations [Attributes 5 ''onclick'']])
          (initial plainDocument ''http://x/''))
     = [5]"
  by code_simp

subsection \<open>Value synthesis for numeric inputs\<close>

lemma numberInputValue_empty_step:
  assumes "minProp nd = Some m" and "m \<noteq> []" and "stepProp nd = Some []"
  shows "numberInputValue E nd = None"
  using assms by (simp add: numberInputValue_def numberPlus_def parseInt_def split: option.splits)

text \<open>
  Claim C4 says that a number or range input with a \<^verbatim>\<open>min\<close> gets \<^verbatim>\<open>min + 1\<close> when it
  has no step. The source falls back to 1 only when the object has no \<^verbatim>\<open>step\<close>
  property at all; an input element always has one, empty when the attribute is
  missing, and \<^verbatim>\<open>parseInt('')\<close> is \<^verbatim>\<open>NaN\<close>. With \<^verbatim>\<open>min="5"\<close> and no step the number
  the source assigns to \<^verbatim>\<open>element.value\<close> is \<^verbatim>\<open>NaN\<close>, not 6 (the setter receives the
  string \<^verbatim>\<open>NaN\<close>); with \<^verbatim>\<open>step="2"\<close> it is 7, and 6 is what an object without the
  property would get.
\<close>

theorem number_input_without_step:
  "numberInputValue exampleEnv (numberInput ''5'' []) = None
   \<and> numberToString (numberInputValue exampleEnv (numberInput ''5'' [])) = ''NaN''
   \<and> numberInputValue exampleEnv (numberInput ''5'' ''2'') = Some 7
   \<and> numberInputValue exampleEnv ((numberInput ''5'' [])\<lparr>stepProp := None\<rparr>) = Some 6"
  by code_simp

subsection \<open>Constructing a Request\<close>

lemma prefix_colon:
  assumes "CHR '':'' \<notin> set s"
  shows "prefix (w @ '':'') (s @ '':'') \<longleftrightarrow> s = w"
proof
  assume "prefix (w @ '':'') (s @ '':'')"
  then obtain r where r: "s @ '':'' = (w @ '':'') @ r" by (auto simp: prefix_def)
  show "s = w"
  proof (cases r rule: rev_cases)
    case Nil
    with r show ?thesis by simp
  next
    case (snoc cs c)
    with r have "s @ '':'' = (w @ '':'' @ cs) @ [c]" by simp
    then have "s = w @ '':'' @ cs" by (simp only: append1_eq_conv)
    with assms show ?thesis by auto
  qed
next
  assume "s = w" then show "prefix (w @ '':'') (s @ '':'')" by simp
qed

lemma protocolAllowed_unfold:
  "protocolAllowed (protocol u)
     \<longleftrightarrow> prefix (''http'' @ '':'') (scheme u @ '':'')
         \<or> prefix (''https'' @ '':'') (scheme u @ '':'')
         \<or> prefix (''ftp'' @ '':'') (scheme u @ '':'')
         \<or> prefix (''sftp'' @ '':'') (scheme u @ '':'')
         \<or> prefix (''javascript'' @ '':'') (scheme u @ '':'')"
  unfolding protocolAllowed_def protocol_def by (simp only: append.simps)

lemma protocolAllowed_scheme:
  assumes "CHR '':'' \<notin> set (scheme u)"
  shows "protocolAllowed (protocol u)
         \<longleftrightarrow> scheme u \<in> {''http'', ''https'', ''ftp'', ''sftp'', ''javascript''}"
  unfolding protocolAllowed_unfold prefix_colon [OF assms] insert_iff empty_iff
  by (simp only: simp_thms)

lemma new_Request_parsed:
  assumes "new_URL E urlString loc = Some u"
  shows "new_Request E loc ty meth urlString d trig =
           (if protocolAllowed (protocol u)
            then Inr \<lparr>type = ty, method' = meth, data = orNull d, triggerer = trig,
                      url = href (u\<lparr>fragment := None\<rparr>)\<rparr>
            else Inl (WrongProtocolType (protocol u)))"
  using assms by (simp add: new_Request_def getAbsoluteUrl_def set_hash_empty_def)

lemma new_Request_unparsed:
  assumes "new_URL E urlString loc = None"
  shows "new_Request E loc ty meth urlString d trig = Inl InvalidURL"
  using assms by (simp add: new_Request_def getAbsoluteUrl_def)

lemma new_Request_Inr:
  assumes "new_Request E loc ty meth urlString d trig = Inr r"
  shows "\<exists>u. new_URL E urlString loc = Some u \<and> protocolAllowed (protocol u)
             \<and> r = \<lparr>type = ty, method' = meth, data = orNull d, triggerer = trig,
                     url = href (u\<lparr>fragment := None\<rparr>)\<rparr>"
proof (cases "new_URL E urlString loc")
  case None
  then show ?thesis using assms by (simp add: new_Request_unparsed)
next
  case (Some u)
  then show ?thesis using assms by (simp add: new_Request_parsed split: if_splits)
qed

text \<open>
  Claim C5: constructing a Request throws if and only if the url string does not
  resolve, against the document location, to a URL whose scheme is one of http, https,
  ftp, sftp, javascript. A string the platform cannot parse makes the URL constructor
  throw, and a resolved URL with another scheme makes the probe throw its
  \<^verbatim>\<open>Wrong protocol type\<close> error; both are the \<^verbatim>\<open>TypeError\<close> that the specification calls
  InvalidUrl. When the constructor returns, the url it stored is the serialisation of
  the resolved URL without its fragment, which is absolute: it starts with the scheme
  and a colon. (The hypothesis says that the scheme of a parsed URL has no colon.)
\<close>

theorem request_construction_fails_iff:
  assumes "\<And>u. new_URL E urlString loc = Some u \<Longrightarrow> CHR '':'' \<notin> set (scheme u)"
  shows "(isl (new_Request E loc ty meth urlString d trig)
          \<longleftrightarrow> \<not> (\<exists>u. new_URL E urlString loc = Some u
                    \<and> scheme u \<in> {''http'', ''https'', ''ftp'', ''sftp'', ''javascript''}))
         \<and> (new_Request E loc ty meth urlString d trig = Inl InvalidURL
          \<longleftrightarrow> new_URL E urlString loc = None)
         \<and> (\<forall>u. new_URL E urlString loc = Some u \<longrightarrow>
              (new_Request E loc ty meth urlString d trig = Inl (WrongProtocolType (protocol u))
               \<longleftrightarrow> scheme u \<notin> {''http'', ''https'', ''ftp'', ''sftp'', ''javascript''}))
         \<and> (\<forall>r. new_Request E loc ty meth urlString d trig = Inr r \<longrightarrow>
              (\<exists>u. new_URL E urlString loc = Some u
                 \<and> scheme u \<in> {''http'', ''https'', ''ftp'', ''sftp'', ''javascript''}
                 \<and> url r = href (u\<lparr>fragment := None\<rparr>) \<and> prefix (scheme u @ '':'') (url r)))"
proof (cases "new_URL E urlString loc")
  case None
  then show ?thesis by (simp add: new_Request_unparsed)
next
  case (Some u)
  have sch: "protocolAllowed (protocol u)
             \<longleftrightarrow> scheme u \<in> {''http'', ''https'', ''ftp'', ''sftp'', ''javascript''}"
    using assms [OF Some] by (rule protocolAllowed_scheme)
  have abs: "prefix (scheme u @ '':'') (href (u\<lparr>fragment := None\<rparr>))"
    by (simp add: href_def)
  show ?thesis
  proof (cases "protocolAllowed (protocol u)")
    case True
    then have "scheme u \<in> {''http'', ''https'', ''ftp'', ''sftp'', ''javascript''}"
      using sch by (simp only:)
    then show ?thesis
      unfolding new_Request_parsed [OF Some] Some using abs True by simp
  next
    case False
    then have "scheme u \<notin> {''http'', ''https'', ''ftp'', ''sftp'', ''javascript''}"
      using sch by (simp only: simp_thms)
    then show ?thesis
      unfolding new_Request_parsed [OF Some] Some using False by simp
  qed
qed


theorem request_construction_fails_iff_witness:
  "new_URL exampleEnv ''http://a b/'' ''http://x/'' = None
   \<and> new_Request exampleEnv ''http://x/'' ''link'' ''GET'' ''http://a b/'' None None
       = Inl InvalidURL
   \<and> new_URL exampleEnv ''mailto:a@b'' ''http://x/''
       = Some \<lparr>scheme = ''mailto'', body = ''a@b'', query = None, fragment = None\<rparr>
   \<and> new_Request exampleEnv ''http://x/'' ''link'' ''GET'' ''mailto:a@b'' None None
       = Inl (WrongProtocolType ''mailto:'')
   \<and> new_URL exampleEnv ''http://x/y'' ''http://x/'' = Some (http ''//x/y'' None None)
   \<and> isl (new_Request exampleEnv ''http://x/'' ''link'' ''GET'' ''http://x/y'' None None) = False
   \<and> new_Request exampleEnv ''http://x/'' ''link'' ''GET'' ''http://x/y'' None None
       = Inr \<lparr>type = ''link'', method' = ''GET'', data = None, triggerer = None,
              url = ''http://x/y''\<rparr>"
proof -
  have p0: "new_URL exampleEnv ''http://a b/'' ''http://x/'' = None"
    by (simp add: exampleEnv_def exampleURL_def)
  have a0: "\<And>u. new_URL exampleEnv ''http://a b/'' ''http://x/'' = Some u
                \<Longrightarrow> CHR '':'' \<notin> set (scheme u)"
    by (simp add: p0)
  have r0: "new_Request exampleEnv ''http://x/'' ''link'' ''GET'' ''http://a b/'' None None
       = Inl InvalidURL"
    using request_construction_fails_iff
        [of exampleEnv "''http://a b/''" "''http://x/''" "''link''" "''GET''" None None, OF a0] p0
    by (simp only: simp_thms)
  have p1: "new_URL exampleEnv ''mailto:a@b'' ''http://x/''
     = Some \<lparr>scheme = ''mailto'', body = ''a@b'', query = None, fragment = None\<rparr>"
    by (simp add: exampleEnv_def exampleURL_def)
  have a1: "\<And>u. new_URL exampleEnv ''mailto:a@b'' ''http://x/'' = Some u
                \<Longrightarrow> CHR '':'' \<notin> set (scheme u)"
    unfolding p1 by auto
  have n1: "scheme \<lparr>scheme = ''mailto'', body = ''a@b'', query = None, fragment = None\<rparr>
              \<notin> {''http'', ''https'', ''ftp'', ''sftp'', ''javascript''}"
    by simp
  have r1: "new_Request exampleEnv ''http://x/'' ''link'' ''GET'' ''mailto:a@b'' None None
       = Inl (WrongProtocolType ''mailto:'')"
    using request_construction_fails_iff
        [of exampleEnv "''mailto:a@b''" "''http://x/''" "''link''" "''GET''" None None, OF a1] p1 n1
    by (simp add: protocol_def)
  have p2: "new_URL exampleEnv ''http://x/y'' ''http://x/'' = Some (http ''//x/y'' None None)"
    by (simp add: exampleEnv_def exampleURL_def)
  have a2: "\<And>u. new_URL exampleEnv ''http://x/y'' ''http://x/'' = Some u
                \<Longrightarrow> CHR '':'' \<notin> set (scheme u)"
    unfolding p2 by (auto simp: http_def)
  have i2: "isl (new_Request exampleEnv ''http://x/'' ''link'' ''GET'' ''http://x/y'' None None)
              = False"
    using request_construction_fails_iff
        [of exampleEnv "''http://x/y''" "''http://x/''" "''link''" "''GET''" None None, OF a2] p2
    by (simp add: http_def)
  have r2: "new_Request exampleEnv ''http://x/'' ''link'' ''GET'' ''http://x/y'' None None
       = Inr \<lparr>type = ''link'', method' = ''GET'', data = None, triggerer = None,
              url = ''http://x/y''\<rparr>"
    by (simp add: new_Request_parsed [OF p2] protocolAllowed_def protocol_def http_def href_def
        orNull_def)
  show ?thesis using p0 r0 p1 r1 p2 i2 r2 by simp
qed

text \<open>
  Claim C10: the url stored by a constructor that returned is the serialisation of the
  parsed URL with its fragment removed; as the parsed URL has no \<^verbatim>\<open>#\<close> before its
  fragment, the stored url has none at all.
\<close>

theorem request_url_has_no_fragment:
  assumes "new_Request E loc ty meth urlString d trig = Inr r"
  shows "\<exists>u. new_URL E urlString loc = Some u \<and> url r = href (u\<lparr>fragment := None\<rparr>)
             \<and> (hashFree u \<longrightarrow> CHR ''#'' \<notin> set (url r))"
proof -
  obtain u where u: "new_URL E urlString loc = Some u"
    and r: "r = \<lparr>type = ty, method' = meth, data = orNull d, triggerer = trig,
                 url = href (u\<lparr>fragment := None\<rparr>)\<rparr>"
    using new_Request_Inr [OF assms] by blast
  have "hashFree u \<longrightarrow> CHR ''#'' \<notin> set (href (u\<lparr>fragment := None\<rparr>))"
    by (auto simp: hashFree_def href_def split: option.splits)
  with u r show ?thesis by simp
qed

theorem request_url_has_no_fragment_witness:
  "new_Request exampleEnv ''http://x/'' ''link'' ''GET'' ''http://x/y#top'' None None
     = Inr \<lparr>type = ''link'', method' = ''GET'', data = None, triggerer = None,
            url = ''http://x/y''\<rparr>
   \<and> new_URL exampleEnv ''http://x/y#top'' ''http://x/'' = Some (http ''//x/y'' None (Some ''top''))
   \<and> hashFree (http ''//x/y'' None (Some ''top''))
   \<and> CHR ''#'' \<notin> set ''http://x/y''"
proof -
  have p: "new_URL exampleEnv ''http://x/y#top'' ''http://x/''
             = Some (http ''//x/y'' None (Some ''top''))"
    by (simp add: exampleEnv_def exampleURL_def)
  have r: "new_Request exampleEnv ''http://x/'' ''link'' ''GET'' ''http://x/y#top'' None None
     = Inr \<lparr>type = ''link'', method' = ''GET'', data = None, triggerer = None,
            url = ''http://x/y''\<rparr>"
    by (simp add: new_Request_parsed [OF p] protocolAllowed_def protocol_def http_def href_def
        orNull_def)
  have h: "hashFree (http ''//x/y'' None (Some ''top''))"
    by (simp add: hashFree_def http_def)
  show ?thesis using request_url_has_no_fragment [OF r] p r h by (simp add: http_def href_def)
qed

subsection \<open>Forms\<close>



















subsection \<open>What every entry into the probe preserves\<close>

text \<open>
  Every operation of the probe keeps the dedup keys it has and adds to the event queue
  only PageEvents whose name is outside \<open>unloadEvents\<close> (\<open>extends\<close>); so does every
  run.
\<close>

lemma extends_refl: "extends s s"
  by (simp add: extends_def)

lemma extends_trans: "extends s s1 \<Longrightarrow> extends s1 s2 \<Longrightarrow> extends s s2"
  unfolding extends_def by blast

lemma extends_fold:
  assumes "\<And>x t. extends t (f x t)"
  shows "extends s (fold f xs s)"
proof (induction xs arbitrary: s)
  case Nil
  show ?case by (simp add: extends_refl)
next
  case (Cons x xs)
  have "extends s (f x s)" by (rule assms)
  moreover have "extends (f x s) (fold f xs (f x s))" by (rule Cons.IH)
  ultimately show ?case by (simp add: extends_trans)
qed

lemma extends_emit: "extends s (emit e s)"
  by (simp add: extends_def emit_def)

lemma extends_emit_after: "extends s s1 \<Longrightarrow> extends s (emit e s1)"
  by (erule extends_trans) (rule extends_emit)

lemma extends_printRequest: "extends s (printRequest r s)"
  by (auto simp: extends_def printRequest_def emit_def Let_def)

lemma extends_printLink: "extends s (printLink E u s)"
  by (simp add: printLink_def extends_refl extends_printRequest split: sum.splits)

lemma extends_printWebsocket: "extends s (printWebsocket E u s)"
  by (simp add: printWebsocket_def extends_refl extends_printRequest split: sum.splits)

lemma extends_printJSONP: "extends s (printJSONP E n s)"
  by (simp add: printJSONP_def extends_refl extends_printRequest split: sum.splits)

lemma extends_scheduleDOMAssessment: "extends s (scheduleDOMAssessment el s)"
  by (simp add: scheduleDOMAssessment_def extends_def)

lemma extends_sentXHR: "extends s (sentXHR x s)"
  by (simp add: sentXHR_def extends_def)

lemma extends_doneXHR: "extends s (doneXHR x s)"
  by (simp add: doneXHR_def extends_def Let_def)

lemma extends_scheduleEventTriggering:
  "eventName pe \<notin> unloadEvents \<Longrightarrow> extends s (scheduleEventTriggering pe s)"
  by (auto simp: scheduleEventTriggering_def extends_def)

lemma extends_triggerChange: "extends s (triggerChange el s)"
proof -
  have "''input'' \<notin> unloadEvents" by (simp add: unloadEvents_def)
  then have "extends (s\<lparr>nextOid := Suc (nextOid s)\<rparr>)
          (scheduleEventTriggering \<lparr>oid = nextOid s, element = el, eventName = ''input''\<rparr>
             (s\<lparr>nextOid := Suc (nextOid s)\<rparr>))"
    by (intro extends_scheduleEventTriggering) simp
  moreover have "extends s (s\<lparr>nextOid := Suc (nextOid s)\<rparr>)" by (simp add: extends_def)
  ultimately show ?thesis
    by (simp add: triggerChange_def new_PageEvent_def trigger_def extends_trans)
qed

lemma extends_setValue: "extends s (setValue E el v s)"
  by (simp add: setValue_def extends_def)

lemma extends_toggleCheckedAttribute: "extends s (toggleCheckedAttribute E el s)"
  by (simp add: toggleCheckedAttribute_def extends_def Let_def)

lemma extends_setVal: "extends s (setVal E el s)"
proof -
  have a: "extends s (triggerChange el (setValue E el v s))" for v
    using extends_setValue extends_triggerChange by (rule extends_trans)
  have b: "extends s (triggerChange el (toggleCheckedAttribute E el s))"
    using extends_toggleCheckedAttribute extends_triggerChange by (rule extends_trans)
  show ?thesis
    unfolding setVal_def Let_def
    by (simp add: a b extends_refl)
qed


lemma extends_triggerElementEvent: "extends s (triggerElementEvent el ev s)"
proof -
  let ?pe = "\<lparr>oid = nextOid s, element = el, eventName = ev\<rparr>"
  let ?s1 = "s\<lparr>nextOid := Suc (nextOid s)\<rparr>"
  let ?s2 = "?s1\<lparr>triggeredPageEvents := triggeredPageEvents ?s1 @ [?pe]\<rparr>"
  have 1: "extends s ?s1" by (simp add: extends_def)
  have 2: "extends s ?s2" by (simp add: extends_def)
  have 3: "ev \<notin> unloadEvents \<Longrightarrow> extends ?s2 (scheduleEventTriggering ?pe ?s2)"
    by (intro extends_scheduleEventTriggering) simp
  have 4: "ev \<notin> unloadEvents \<Longrightarrow> extends s (scheduleEventTriggering ?pe ?s2)"
    using 2 3 by (rule extends_trans)
  show ?thesis
    using 1 4
    by (simp add: triggerElementEvent_def new_PageEvent_def trigger_def unloadEvents_def)
qed

lemma extends_triggerElementEvents: "extends s (triggerElementEvents E el s)"
  unfolding triggerElementEvents_def by (rule extends_fold) (rule extends_triggerElementEvent)

lemma extends_mapElementEvents: "extends s (mapElementEvents E el s)"
  unfolding mapElementEvents_def
  by (rule extends_fold) (simp add: extends_def)

lemma extends_printRequestFromForm: "extends s (printRequestFromForm E el s)"
  by (simp add: printRequestFromForm_def extends_refl extends_printRequest split: sum.splits)

lemma extends_printRequestFromATag: "extends s (printRequestFromATag E el s)"
  by (simp add: printRequestFromATag_def extends_refl extends_printLink)

lemma extends_analyzeDOMElement: "extends s (analyzeDOMElement E el s)"
proof -
  let ?s1 = "mapElementEvents E el s"
  let ?s2 = "if fillValues E then fold (setVal E) (descendants (dom ?s1 el)) ?s1 else ?s1"
  let ?s3 = "printRequestFromForm E el ?s2"
  let ?s4 = "printRequestFromATag E el ?s3"
  have 1: "extends s ?s1" by (rule extends_mapElementEvents)
  have "extends ?s1 ?s2" by (simp add: extends_refl extends_fold extends_setVal)
  with 1 have 2: "extends s ?s2" by (rule extends_trans)
  have 3: "extends s ?s3" using 2 extends_printRequestFromForm by (rule extends_trans)
  have 4: "extends s ?s4" using 3 extends_printRequestFromATag by (rule extends_trans)
  have 5: "extends s (triggerElementEvents E el ?s4)"
    using 4 extends_triggerElementEvents by (rule extends_trans)
  show ?thesis using 4 5 by (simp add: analyzeDOMElement_def Let_def)
qed

lemma extends_doNextAction: "extends s (doNextAction E s)"
proof -
  let ?s1 = "s\<lparr>isReadyToClose := False, DOMAssessmentQueue := tl (DOMAssessmentQueue s)\<rparr>"
  have "extends s ?s1" by (simp add: extends_def)
  then have "extends s (analyzeDOMElement E (hd (DOMAssessmentQueue s)) ?s1)"
    using extends_analyzeDOMElement by (rule extends_trans)
  then have a: "extends s (emit PostMessage (analyzeDOMElement E (hd (DOMAssessmentQueue s)) ?s1))"
    by (rule extends_emit_after)
  have b: "toBeTriggeredEventsQueue s \<noteq> [] \<Longrightarrow>
        extends s (s\<lparr>isReadyToClose := False,
                     toBeTriggeredEventsQueue := butlast (toBeTriggeredEventsQueue s),
                     currentPageEvent := Some (last (toBeTriggeredEventsQueue s))\<rparr>)"
    by (auto simp: extends_def dest: in_set_butlastD)
  have c: "extends s (s\<lparr>isReadyToClose := False\<rparr>)"
    "extends s (s\<lparr>isReadyToClose := False, doneXHRQueue := tl (doneXHRQueue s)\<rparr>)"
    by (simp_all add: extends_def)
  show ?thesis
    unfolding doNextAction_def Let_def
    by (simp add: a b c extends_emit extends_emit_after)
qed


lemma extends_eventMessageHandler: "extends s (eventMessageHandler E m s)"
proof -
  let ?s1 = "emit StopPropagation s"
  have 1: "extends s ?s1" by (rule extends_emit)
  have 2: "extends s ((emit PostMessage ?s1)\<lparr>emptyLoopCounter := emptyLoopCounter ?s1 + 1\<rparr>)"
    by (simp add: extends_def emit_def)
  have "extends s (?s1\<lparr>emptyLoopCounter := 0\<rparr>)" by (simp add: extends_def emit_def)
  then have 3: "extends s (doNextAction E (?s1\<lparr>emptyLoopCounter := 0\<rparr>))"
    using extends_doNextAction by (rule extends_trans)
  have 4: "extends s (printLink E (data_url m) ?s1)"
    using 1 extends_printLink by (rule extends_trans)
  show ?thesis
    unfolding eventMessageHandler_def Let_def
    by (simp add: 1 2 3 4 extends_refl)
qed

lemma extends_mutated: "extends s (mutated m s)"
proof (cases m)
  case (ChildList addedNodes)
  have "extends s (fold (\<lambda>addedNode s'. if nodeKind (dom s' addedNode) = ElementNode
                                then scheduleDOMAssessment addedNode s' else s')
               addedNodes s)"
    by (rule extends_fold) (simp add: extends_refl extends_scheduleDOMAssessment)
  with ChildList show ?thesis by (simp add: mutated_def)
next
  case (Attributes el attributeName)
  have "extends s (s\<lparr>triggeredPageEvents := purgeTriggered el (triggeredPageEvents s)\<rparr>)"
    by (simp add: extends_def)
  then have "extends s (scheduleDOMAssessment el
            (s\<lparr>triggeredPageEvents := purgeTriggered el (triggeredPageEvents s)\<rparr>))"
    using extends_scheduleDOMAssessment by (rule extends_trans)
  with Attributes show ?thesis by (simp add: mutated_def)
next
  case CharacterData
  then show ?thesis by (simp add: mutated_def extends_refl)
qed

lemma extends_nodeMutated: "extends s (nodeMutated ms s)"
  unfolding nodeMutated_def by (rule extends_fold) (rule extends_mutated)

lemma extends_startAnalysis: "extends s (startAnalysis elements s)"
proof -
  have "extends s (fold (\<lambda>el s'. if nodeKind (dom s' el) = ElementNode
                          then scheduleDOMAssessment el s' else s') elements s)"
    by (rule extends_fold) (simp add: extends_refl extends_scheduleDOMAssessment)
  then show ?thesis by (simp add: startAnalysis_def start_def extends_emit_after)
qed

lemma extends_node_addEventListener: "extends s (node_addEventListener el ev s)"
  by (simp add: node_addEventListener_def extends_def)

lemma extends_window_addEventListener: "extends s (window_addEventListener w ev s)"
  by (simp add: window_addEventListener_def extends_def)

lemma extends_xhr_open: "extends s (xhr_open E x meth u s)"
  by (simp add: xhr_open_def extends_def emit_def split: sum.splits)

lemma extends_xhr_readystatechange: "extends s (xhr_readystatechange x n s)"
  by (simp add: xhr_readystatechange_def extends_refl extends_sentXHR extends_doneXHR)

lemma extends_xhr_send: "extends s (xhr_send E x d s)"
proof (cases "xhrRequest s x")
  case None
  then show ?thesis by (simp add: xhr_send_def extends_refl)
next
  case (Some r0)
  have a: "extends s (s\<lparr>xhrRequest := f, xhrSkipped := g\<rparr>)" for f g
    by (simp add: extends_def)
  have b: "extends s (printRequest r (s\<lparr>xhrRequest := f, xhrSkipped := g, sentXHRs := k\<rparr>))"
    for r f g k
  proof -
    have "extends s (s\<lparr>xhrRequest := f, xhrSkipped := g, sentXHRs := k\<rparr>)"
      by (simp add: extends_def)
    then show ?thesis using extends_printRequest by (rule extends_trans)
  qed
  show ?thesis
    using Some unfolding xhr_send_def Let_def
    by (simp add: a b extends_emit_after)
qed

lemma extends_form_submit: "extends s (form_submit E form s)"
  by (simp add: form_submit_def extends_emit_after extends_refl extends_printRequest
      split: sum.splits)

lemma extends_timerFired: "extends s (timerFired t s)"
  by (cases t) (simp_all add: timerFired_def extends_def emit_def)

lemma extends_step: "extends s (step E i s)"
proof (cases i)
  case (PageChanged D loc)
  then show ?thesis by (simp add: step_def extends_def)
qed (simp_all add: step_def extends_eventMessageHandler extends_startAnalysis
      extends_nodeMutated extends_node_addEventListener extends_window_addEventListener
      extends_xhr_open extends_xhr_readystatechange extends_xhr_send extends_printJSONP
      extends_printWebsocket extends_printLink extends_form_submit extends_timerFired)

lemma extends_run: "extends s (run E inputs s)"
  unfolding run_def by (rule extends_fold) (rule extends_step)

subsection \<open>Reporting a request at most once\<close>

lemma key_cong:
  assumes "type r1 = type r2" and "method' r1 = method' r2" and "url r1 = url r2"
    and "data r1 = data r2" and "triggerInfo D1 r1 = triggerInfo D2 r2"
  shows "key D1 r1 = key D2 r2"
  using assms by (simp add: key_def toJSON_def triggerInfo_def split: option.splits)

lemma printRequest_seen: "key (dom s) r \<in> set (seenRequest (printRequest r s))"
  by (simp add: printRequest_def emit_def Let_def)

lemma printRequest_dropped: "key (dom s) r \<in> set (seenRequest s) \<Longrightarrow> printRequest r s = s"
  by (simp add: printRequest_def)

text \<open>
  Claim C1, amended: two Requests with identical type, method, url and data whose
  triggerers are both absent, or both present with the same event name and the same
  printed element (\<^verbatim>\<open>_elementToString\<close>, each at the time it is reported), have the same
  key, and \<^verbatim>\<open>printRequest\<close> emits at most one of them: once one was reported, whatever
  the probe does afterwards, reporting the other changes nothing and emits nothing.
\<close>

theorem report_at_most_once:
  assumes "type r1 = type r2" and "method' r1 = method' r2" and "url r1 = url r2"
    and "data r1 = data r2"
    and "triggerInfo (dom s) r1 = triggerInfo (dom (run E inputs (printRequest r1 s))) r2"
  shows "printRequest r2 (run E inputs (printRequest r1 s)) = run E inputs (printRequest r1 s)
         \<and> emitted (effects (printRequest r2 (run E inputs (printRequest r1 s))))
             = emitted (effects (run E inputs (printRequest r1 s)))"
proof -
  let ?s' = "run E inputs (printRequest r1 s)"
  have "key (dom s) r1 = key (dom ?s') r2"
    using assms by (rule key_cong)
  moreover have "key (dom s) r1 \<in> set (seenRequest (printRequest r1 s))"
    by (rule printRequest_seen)
  moreover have "set (seenRequest (printRequest r1 s)) \<subseteq> set (seenRequest ?s')"
    using extends_run [of "printRequest r1 s" E inputs] by (simp add: extends_def)
  ultimately have "key (dom ?s') r2 \<in> set (seenRequest ?s')" by auto
  then have "printRequest r2 ?s' = ?s'" by (rule printRequest_dropped)
  then show ?thesis by simp
qed

theorem report_at_most_once_witness:
  "triggerInfo (dom (initial plainDocument ''http://x/'')) (linkXY (Some (clickOn 0 5)))
     = Some (''[DIV ]'', ''click'')
   \<and> triggerInfo
        (dom (run exampleEnv [WindowOpen ''http://x/'', Message tick]
                (printRequest (linkXY (Some (clickOn 0 5))) (initial plainDocument ''http://x/''))))
        (linkXY (Some (clickOn 7 5)))
     = Some (''[DIV ]'', ''click'')
   \<and> emitted (effects (printRequest (linkXY (Some (clickOn 7 5)))
                (run exampleEnv [WindowOpen ''http://x/'', Message tick]
                   (printRequest (linkXY (Some (clickOn 0 5)))
                      (initial plainDocument ''http://x/'')))))
      = [linkXY (Some (clickOn 0 5)),
         \<lparr>type = ''link'', method' = ''GET'', data = None, triggerer = None,
           url = ''http://x/''\<rparr>]"
proof -
  let ?s = "initial plainDocument ''http://x/''"
  let ?r1 = "linkXY (Some (clickOn 0 5))"
  let ?r2 = "linkXY (Some (clickOn 7 5))"
  let ?s' = "run exampleEnv [WindowOpen ''http://x/'', Message tick] (printRequest ?r1 ?s)"
  have t1: "triggerInfo (dom ?s) ?r1 = Some (''[DIV ]'', ''click'')"
    by code_simp
  have t2: "triggerInfo (dom ?s') ?r2 = Some (''[DIV ]'', ''click'')"
    by code_simp
  have f: "type ?r1 = type ?r2" "method' ?r1 = method' ?r2" "url ?r1 = url ?r2"
    "data ?r1 = data ?r2"
    by (simp_all add: linkXY_def)
  have e: "emitted (effects ?s')
      = [?r1, \<lparr>type = ''link'', method' = ''GET'', data = None, triggerer = None,
                url = ''http://x/''\<rparr>]"
    by code_simp
  have "emitted (effects (printRequest ?r2 ?s')) = emitted (effects ?s')"
    using report_at_most_once [OF f, of ?s exampleEnv "[WindowOpen ''http://x/'', Message tick]"]
      t1 t2 by simp
  with t1 t2 e show ?thesis by simp
qed

text \<open>
  Claim C1, as stated, fails: the key is the serialisation that \<^verbatim>\<open>toJSON\<close> returns,
  and \<^verbatim>\<open>toJSON\<close> adds the triggerer. A page that opens the same url before any event
  was triggered and again after the click on node 5 has both link requests emitted:
  they agree on type, method, url and data and differ in the triggerer.
\<close>

theorem report_differing_triggerer_counterexample:
  "emitted (effects (run exampleEnv openedTwice (initial plainDocument ''http://x/'')))
     = [linkXY None, linkXY (Some (clickOn 0 5))]
   \<and> type (linkXY None) = type (linkXY (Some (clickOn 0 5)))
   \<and> method' (linkXY None) = method' (linkXY (Some (clickOn 0 5)))
   \<and> url (linkXY None) = url (linkXY (Some (clickOn 0 5)))
   \<and> data (linkXY None) = data (linkXY (Some (clickOn 0 5)))"
proof -
  have "emitted (effects (run exampleEnv openedTwice (initial plainDocument ''http://x/'')))
     = [linkXY None, linkXY (Some (clickOn 0 5))]"
    by code_simp
  then show ?thesis by (simp add: linkXY_def)
qed

subsection \<open>Events that are never fired\<close>

text \<open>
  Claim C6: in every state the probe reaches from its initial state, by any sequence of
  entries on any page and with any configuration, no PageEvent named load, unload or
  beforeunload is in the queue of events to trigger (the page may have bound such an
  event: it is in the events map, and \<^verbatim>\<open>_triggerElementEvents\<close> leaves it out).
\<close>

theorem no_load_event_is_queued:
  "\<forall>pe \<in> set (toBeTriggeredEventsQueue (run E inputs (initial D loc))).
     eventName pe \<notin> {''load'', ''unload'', ''beforeunload''}"
proof -
  have "extends (initial D loc) (run E inputs (initial D loc))" by (rule extends_run)
  moreover have "toBeTriggeredEventsQueue (initial D loc) = []" by (simp add: initial_def)
  ultimately show ?thesis by (simp add: extends_def unloadEvents_def)
qed

theorem no_load_event_is_queued_witness:
  "eventsMap (run exampleEnv loadAndClick (initial plainDocument ''http://x/''))
     = [(5, [''load'', ''click''])]
   \<and> toBeTriggeredEventsQueue (run exampleEnv loadAndClick (initial plainDocument ''http://x/''))
     = [clickOn 1 5]
   \<and> eventName (clickOn 1 5) \<notin> {''load'', ''unload'', ''beforeunload''}"
proof -
  have m: "eventsMap (run exampleEnv loadAndClick (initial plainDocument ''http://x/''))
     = [(5, [''load'', ''click''])]"
    by code_simp
  have q: "toBeTriggeredEventsQueue (run exampleEnv loadAndClick (initial plainDocument ''http://x/''))
     = [clickOn 1 5]"
    by code_simp
  have "eventName (clickOn 1 5) \<notin> {''load'', ''unload'', ''beforeunload''}"
    using no_load_event_is_queued [of exampleEnv loadAndClick plainDocument "''http://x/''"]
    by (simp add: q)
  with m q show ?thesis by simp
qed

end
